theory Spec2Isabelle
  imports Main
begin

section \<open>Python strings\<close>

text \<open>
  A Python \<open>str\<close> is a sequence of Unicode code points, and \<open>len\<close>, slicing,
  \<open>replace\<close>, \<open>split\<close> and \<open>strip\<close> all count code points. A string is therefore a list
  of natural numbers, one per code point. ASCII literals of the source are written
  \<open>str ''...''\<close>; literals with quote characters or code points beyond ASCII are written
  as explicit lists of code points.
\<close>

type_synonym pystr = "nat list"

definition str :: "string \<Rightarrow> pystr" where
  "str s = map of_char s"

text \<open>\<open>s.startswith(p)\<close>.\<close>

fun startswith :: "pystr \<Rightarrow> pystr \<Rightarrow> bool" where
  "startswith s [] = True"
| "startswith [] (p # ps) = False"
| "startswith (c # cs) (p # ps) = (c = p \<and> startswith cs ps)"

text \<open>\<open>s.endswith(p)\<close>.\<close>

definition endswith :: "pystr \<Rightarrow> pystr \<Rightarrow> bool" where
  "endswith s p = (length p \<le> length s \<and> drop (length s - length p) s = p)"

text \<open>\<open>sub in s\<close>: \<open>sub\<close> occurs in \<open>s\<close> as a contiguous run.\<close>

fun contains :: "pystr \<Rightarrow> pystr \<Rightarrow> bool" where
  "contains [] sub = (sub = [])"
| "contains (c # cs) sub = (startswith (c # cs) sub \<or> contains cs sub)"

text \<open>
  \<open>text.replace(old, new)\<close> for a non-empty \<open>old\<close>: occurrences are found from the
  left and do not overlap. (Every \<open>old\<close> of the source is non-empty; for an empty one
  the model leaves the text as it is.)
\<close>

fun replace :: "pystr \<Rightarrow> pystr \<Rightarrow> pystr \<Rightarrow> pystr" where
  "replace old new [] = []"
| "replace old new (c # cs) =
     (if old \<noteq> [] \<and> startswith (c # cs) old
      then new @ replace old new (drop (length old) (c # cs))
      else c # replace old new cs)"

text \<open>
  The code points for which \<open>str.isspace\<close> holds; \<open>split()\<close> and \<open>strip()\<close> without
  arguments use this set.
\<close>

definition isspace :: "nat \<Rightarrow> bool" where
  "isspace c = (c \<in> set [9, 10, 11, 12, 13, 28, 29, 30, 31, 32, 133, 160, 5760,
       8192, 8193, 8194, 8195, 8196, 8197, 8198, 8199, 8200, 8201, 8202,
       8232, 8233, 8239, 8287, 12288])"

text \<open>\<open>text.split()\<close>: the maximal runs of non-whitespace, in order.\<close>

function split :: "pystr \<Rightarrow> pystr list" where
  "split [] = []"
| "split (c # cs) =
     (if isspace c then split cs
      else takeWhile (\<lambda>x. \<not> isspace x) (c # cs)
             # split (dropWhile (\<lambda>x. \<not> isspace x) cs))"
  by pat_completeness auto
termination
  by (relation "measure length") (auto simp: less_Suc_eq_le length_dropWhile_le)

text \<open>\<open>sep.join(parts)\<close>.\<close>

fun join :: "pystr \<Rightarrow> pystr list \<Rightarrow> pystr" where
  "join sep [] = []"
| "join sep [p] = p"
| "join sep (p # q # ps) = p @ sep @ join sep (q # ps)"

text \<open>\<open>text.strip()\<close>.\<close>

definition strip :: "pystr \<Rightarrow> pystr" where
  "strip s = rev (dropWhile isspace (rev (dropWhile isspace s)))"

text \<open>
  \<open>text.lower()\<close> and \<open>text.capitalize()\<close>. The model maps the ASCII letters and leaves
  every other code point as it is; all keyword tables of the source are ASCII.
\<close>

definition lower_char :: "nat \<Rightarrow> nat" where
  "lower_char c = (if 65 \<le> c \<and> c \<le> 90 then c + 32 else c)"

definition upper_char :: "nat \<Rightarrow> nat" where
  "upper_char c = (if 97 \<le> c \<and> c \<le> 122 then c - 32 else c)"

definition lower :: "pystr \<Rightarrow> pystr" where
  "lower s = map lower_char s"

definition capitalize :: "pystr \<Rightarrow> pystr" where
  "capitalize s = (case s of [] \<Rightarrow> [] | c # cs \<Rightarrow> upper_char c # lower cs)"

section \<open>Text normalizer (Agent.py, \<open>clean_text_for_db\<close>)\<close>

text \<open>
  The table \<open>replacements\<close> as Python reads the source line: the quote characters of
  the line are ASCII, so its third and fourth entries form one triple-quoted key. The
  dictionary has five entries, in this order:
  \<^item> \<open>"\<close> to \<open>"\<close>;
  \<^item> the seven characters colon, space, double quote, single quote, double quote,
    comma, space to one single quote;
  \<^item> en dash (U+2013) to \<open>-\<close>; em dash (U+2014) to \<open>-\<close>;
  \<^item> horizontal ellipsis (U+2026) to three full stops.
\<close>

definition replacements :: "(pystr \<times> pystr) list" where
  "replacements =
     [([34], [34]),
      ([58, 32, 34, 39, 34, 44, 32], [39]),
      ([8211], [45]),
      ([8212], [45]),
      ([8230], [46, 46, 46])]"

text \<open>The character class \<open>[\x00-\x08\x0b\x0c\x0e-\x1f\x7f]\<close> removed by \<open>re.sub\<close>.\<close>

definition is_control :: "nat \<Rightarrow> bool" where
  "is_control c = (c \<le> 8 \<or> c = 11 \<or> c = 12 \<or> (14 \<le> c \<and> c \<le> 31) \<or> c = 127)"

text \<open>
  The body of \<open>clean_text_for_db\<close> for a \<open>str\<close> argument. None of its operations
  raises on a \<open>str\<close>, so the \<open>except\<close> branch is not taken and the function is total.
\<close>

definition clean_text_for_db :: "pystr \<Rightarrow> pystr" where
  "clean_text_for_db text =
     (if text = [] then []
      else
        let t1 = replace [9] [32] (replace [10] [32] (replace [13] [32] (replace [0] [] text)));
            t2 = fold (\<lambda>(old, new) t. replace old new t) replacements t1;
            t3 = filter (\<lambda>c. \<not> is_control c) t2;
            t4 = join [32] (split t3)
        in strip t4)"

section \<open>Trending scorer (AI.py, \<open>calculate_trending_score\<close>)\<close>

text \<open>
  An article is a Python dictionary from field names to strings;
  \<open>article.get(key, default)\<close> reads a field, with a default for a missing one.
\<close>

type_synonym article = "string \<rightharpoonup> pystr"

definition get :: "article \<Rightarrow> string \<Rightarrow> pystr \<Rightarrow> pystr" where
  "get article key dflt = (case article key of None \<Rightarrow> dflt | Some v \<Rightarrow> v)"

definition trending_keywords :: "pystr list" where
  "trending_keywords = map str
     [''breaking'', ''just in'', ''latest'', ''new'', ''announces'', ''launches'',
      ''today'', ''this week'', ''now'', ''update'', ''development'',
      ''breakthrough'', ''major'', ''revolutionary'', ''game-changing'']"

definition ai_companies :: "pystr list" where
  "ai_companies = map str
     [''openai'', ''google'', ''microsoft'', ''meta'', ''apple'', ''nvidia'',
      ''anthropic'', ''deepmind'', ''hugging face'', ''stability ai'']"

definition hot_topics :: "pystr list" where
  "hot_topics = map str
     [''gpt'', ''chatgpt'', ''claude'', ''gemini'', ''llama'', ''copilot'',
      ''agi'', ''autonomous'', ''robotics'', ''ai safety'', ''regulation'']"

text \<open>
  One scoring loop: \<open>for k in keywords: if k in title: score += points\<close>.
\<close>

definition add_matches :: "int \<Rightarrow> pystr list \<Rightarrow> pystr \<Rightarrow> int \<Rightarrow> int" where
  "add_matches points keywords title score =
     fold (\<lambda>k s. if contains title k then s + points else s) keywords score"

definition source_bonus :: "pystr \<Rightarrow> int" where
  "source_bonus source =
     (if contains source (str ''techcrunch'') then 10
      else if contains source (str ''google news'') then 15
      else 0)"

definition calculate_trending_score :: "article \<Rightarrow> int" where
  "calculate_trending_score article =
     (let score = 0;
          title = lower (get article ''title'' []);
          score = add_matches 20 trending_keywords title score;
          score = add_matches 15 ai_companies title score;
          score = add_matches 10 hot_topics title score;
          source = lower (get article ''source'' [])
      in score + source_bonus source)"

section \<open>Summary synthesizer (Agent.py, \<open>create_crispy_summary\<close>)\<close>

definition companies :: "pystr list" where
  "companies = map str
     [''openai'', ''google'', ''microsoft'', ''meta'', ''apple'', ''nvidia'', ''amazon'',
      ''anthropic'', ''deepmind'', ''tesla'', ''salesforce'']"

definition actions :: "pystr list" where
  "actions = map str
     [''announce'', ''launch'', ''release'', ''develop'', ''create'', ''introduce'',
      ''unveil'', ''reveal'', ''debut'', ''rollout'']"

definition ai_topics :: "pystr list" where
  "ai_topics = map str
     [''ai'', ''artificial intelligence'', ''gpt'', ''chatgpt'', ''machine learning'',
      ''neural'', ''llm'', ''generative ai'', ''automation'', ''robotics'']"

text \<open>The three search loops; each stops at the first entry that matches.\<close>

definition company_name :: "pystr \<Rightarrow> pystr" where
  "company_name cmp =
     (if cmp = str ''openai'' then str ''OpenAI''
      else if cmp = str ''deepmind'' then str ''DeepMind''
      else capitalize cmp)"

fun find_company :: "pystr list \<Rightarrow> pystr \<Rightarrow> pystr \<Rightarrow> pystr" where
  "find_company [] title_lower content_lower = str ''A tech company''"
| "find_company (cmp # comps) title_lower content_lower =
     (if contains title_lower cmp \<or> contains content_lower cmp then company_name cmp
      else find_company comps title_lower content_lower)"

definition past_tense :: "pystr \<Rightarrow> pystr" where
  "past_tense act =
     (if act = str ''announce'' then str ''announced''
      else if act = str ''launch'' then str ''launched''
      else if act = str ''release'' then str ''released''
      else if endswith act (str ''e'') then act @ str ''d''
      else act @ str ''ed'')"

fun find_action :: "pystr list \<Rightarrow> pystr \<Rightarrow> pystr" where
  "find_action [] title_lower = str ''introduced''"
| "find_action (act # acts) title_lower =
     (if contains title_lower act then past_tense act
      else find_action acts title_lower)"

definition topic_phrase :: "pystr \<Rightarrow> pystr" where
  "topic_phrase ai_topic =
     (if contains ai_topic (str ''gpt'') \<or> contains ai_topic (str ''chatgpt'')
        then str ''ChatGPT technology''
      else if contains ai_topic (str ''machine learning'') then str ''machine learning capabilities''
      else if contains ai_topic (str ''robotics'') then str ''robotics technology''
      else if contains ai_topic (str ''automation'') then str ''automation solutions''
      else str ''AI technology'')"

fun find_topic :: "pystr list \<Rightarrow> pystr \<Rightarrow> pystr \<Rightarrow> pystr" where
  "find_topic [] title_lower content_lower = str ''AI technology''"
| "find_topic (ai_topic # topics) title_lower content_lower =
     (if contains title_lower ai_topic \<or> contains content_lower ai_topic
      then topic_phrase ai_topic
      else find_topic topics title_lower content_lower)"

text \<open>\<open>any(word in title_lower for word in words)\<close>.\<close>

definition any_in :: "pystr list \<Rightarrow> pystr \<Rightarrow> bool" where
  "any_in words title_lower = list_ex (\<lambda>word. contains title_lower word) words"

definition impact :: "pystr \<Rightarrow> pystr" where
  "impact title_lower =
     (if any_in (map str [''breakthrough'', ''revolutionary'', ''game-changing'']) title_lower
        then str ''This breakthrough could transform the tech industry.''
      else if any_in (map str [''partnership'', ''collaboration'', ''deal'']) title_lower
        then str ''This partnership accelerates AI development progress.''
      else if any_in (map str [''funding'', ''investment'', ''raises'']) title_lower
        then str ''This investment signals strong market confidence in AI.''
      else if any_in (map str [''research'', ''study'', ''paper'']) title_lower
        then str ''This research advances our understanding of AI capabilities.''
      else str ''This development marks continued innovation in artificial intelligence.'')"

text \<open>The summary before the final length test.\<close>

definition summary_text :: "pystr \<Rightarrow> pystr \<Rightarrow> pystr" where
  "summary_text title content =
     (let title = (if title = [] then str ''AI News Update'' else title);
          title_lower = lower title;
          content_lower = lower content;
          company = find_company companies title_lower content_lower;
          action = find_action actions title_lower;
          topic = find_topic ai_topics title_lower content_lower;
          summary = company @ str '' has '' @ action @ str '' new '' @ topic @ str ''. ''
      in summary @ impact title_lower)"

text \<open>
  \<open>create_crispy_summary\<close> for \<open>str\<close> arguments (no operation of the body raises on
  them): \<open>summary[:200] + "..." if len(summary) > 200 else summary\<close>.
\<close>

definition create_crispy_summary :: "pystr \<Rightarrow> pystr \<Rightarrow> pystr" where
  "create_crispy_summary title content =
     (let summary = summary_text title content
      in if length summary > 200 then take 200 summary @ str ''...'' else summary)"

section \<open>Properties of the text normalizer\<close>

text \<open>
  Claim C7 (idempotence of the normalizer). The claim says that cleaning a cleaned
  string changes nothing. The code does not do that: the replacement table holds a
  seven-character key that contains spaces, and the table is applied before runs of
  whitespace are collapsed. On the input colon, two spaces, \<open>"'",\<close>, space, \<open>z\<close> the first
  pass finds no key and collapses the two spaces, which forms the key; the second pass
  replaces it by a single quote. Both passes return (the function is total).
\<close>

theorem clean_text_for_db_second_pass_differs:
  "clean_text_for_db [58, 32, 32, 34, 39, 34, 44, 32, 122] = [58, 32, 34, 39, 34, 44, 32, 122]
   \<and> clean_text_for_db (clean_text_for_db [58, 32, 32, 34, 39, 34, 44, 32, 122]) = [39, 122]"
  by (simp add: clean_text_for_db_def replacements_def  is_control_def
        isspace_def strip_def)

section \<open>Properties of the trending scorer\<close>

lemma add_matches_eq:
  "add_matches points ks title score =
     score + points * int (length (filter (contains title) ks))"
  unfolding add_matches_def
  by (induction ks arbitrary: score) (simp_all add: algebra_simps)

lemma length_filter_card:
  "distinct ks \<Longrightarrow> length (filter P ks) = card {k \<in> set ks. P k}"
  by (simp add: distinct_length_filter Int_def conj_commute)

lemma distinct_trending_keywords: "distinct trending_keywords"
  by (simp add: trending_keywords_def str_def)

lemma distinct_ai_companies: "distinct ai_companies"
  by (simp add: ai_companies_def str_def)

lemma distinct_hot_topics: "distinct hot_topics"
  by (simp add: hot_topics_def str_def)

lemma breaking_title_score:
  "add_matches 10 hot_topics (lower (str ''Breaking: OpenAI announces GPT breakthrough''))
     (add_matches 15 ai_companies (lower (str ''Breaking: OpenAI announces GPT breakthrough''))
       (add_matches 20 trending_keywords
          (lower (str ''Breaking: OpenAI announces GPT breakthrough'')) 0)) = 85"
  by code_simp

lemma update_title_score:
  "add_matches 10 hot_topics (lower (str ''OpenAI update''))
     (add_matches 15 ai_companies (lower (str ''OpenAI update''))
       (add_matches 20 trending_keywords (lower (str ''OpenAI update'')) 0)) = 35"
  by code_simp

lemma score_breaking:
  assumes "a ''title'' = Some (str ''Breaking: OpenAI announces GPT breakthrough'')"
  shows "calculate_trending_score a = 85 + source_bonus (lower (get a ''source'' []))"
proof -
  have "get a ''title'' [] = str ''Breaking: OpenAI announces GPT breakthrough''"
    unfolding get_def assms by (rule option.case)
  then show ?thesis
    unfolding calculate_trending_score_def Let_def by (simp only: breaking_title_score)
qed

lemma score_update:
  assumes "a ''title'' = Some (str ''OpenAI update'')"
  shows "calculate_trending_score a = 35 + source_bonus (lower (get a ''source'' []))"
proof -
  have "get a ''title'' [] = str ''OpenAI update''"
    unfolding get_def assms by (rule option.case)
  then show ?thesis
    unfolding calculate_trending_score_def Let_def by (simp only: update_title_score)
qed

text \<open>
  Claim C8 (the score is additive and counts a keyword once). The score is 20 times the
  number of distinct trending keywords that occur in the lowercased title, plus 15 times
  the number of distinct company names, plus 10 times the number of distinct hot topics
  that occur in it, plus the source bonus; how often a keyword occurs does not enter. For
  two articles with the same source field, the one titled
  "Breaking: OpenAI announces GPT breakthrough" scores strictly more than the one titled
  "OpenAI update" (85 against 35 before the bonus).
\<close>

theorem calculate_trending_score_additive:
  assumes "a1 ''title'' = Some (str ''Breaking: OpenAI announces GPT breakthrough'')"
    and "a2 ''title'' = Some (str ''OpenAI update'')"
    and "a1 ''source'' = a2 ''source''"
  shows "calculate_trending_score a =
           20 * int (card {k \<in> set trending_keywords. contains (lower (get a ''title'' [])) k})
         + 15 * int (card {k \<in> set ai_companies. contains (lower (get a ''title'' [])) k})
         + 10 * int (card {k \<in> set hot_topics. contains (lower (get a ''title'' [])) k})
         + source_bonus (lower (get a ''source'' []))
         \<and> calculate_trending_score a2 < calculate_trending_score a1"
proof
  show "calculate_trending_score a =
           20 * int (card {k \<in> set trending_keywords. contains (lower (get a ''title'' [])) k})
         + 15 * int (card {k \<in> set ai_companies. contains (lower (get a ''title'' [])) k})
         + 10 * int (card {k \<in> set hot_topics. contains (lower (get a ''title'' [])) k})
         + source_bonus (lower (get a ''source'' []))"
    by (simp add: calculate_trending_score_def Let_def add_matches_eq length_filter_card
          distinct_trending_keywords distinct_ai_companies distinct_hot_topics)
next
  have g: "get a1 ''source'' [] = get a2 ''source'' []"
    unfolding get_def assms(3) ..
  have b: "calculate_trending_score a1 = 85 + source_bonus (lower (get a1 ''source'' []))"
    by (rule score_breaking [of a1, OF assms(1)])
  have u: "calculate_trending_score a2 = 35 + source_bonus (lower (get a2 ''source'' []))"
    by (rule score_update [of a2, OF assms(2)])
  show "calculate_trending_score a2 < calculate_trending_score a1"
    unfolding b u g by linarith
qed

theorem calculate_trending_score_additive_witness:
  "calculate_trending_score [''title'' \<mapsto> str ''OpenAI update'', ''source'' \<mapsto> str ''TechCrunch'']
     < calculate_trending_score
         [''title'' \<mapsto> str ''Breaking: OpenAI announces GPT breakthrough'',
          ''source'' \<mapsto> str ''TechCrunch'']"
  by (rule calculate_trending_score_additive [THEN conjunct2]) simp_all

section \<open>Properties of the summary synthesizer\<close>

lemma length_capitalize: "length (capitalize s) = length s"
  by (cases s) (simp_all add: capitalize_def lower_def)

lemma length_str: "length (str s) = length s"
  by (simp add: str_def)

lemma length_company_name: "length cmp \<le> 14 \<Longrightarrow> length (company_name cmp) \<le> 14"
  by (simp add: company_name_def length_capitalize length_str)

lemma length_find_company:
  "\<forall>c \<in> set cs. length c \<le> 14 \<Longrightarrow> length (find_company cs t c) \<le> 14"
  by (induction cs) (simp_all add: length_company_name length_str)

lemma companies_short: "\<forall>c \<in> set companies. length c \<le> 14"
  by (simp add: companies_def length_str)

lemma length_past_tense: "length (past_tense act) \<le> length act + 2"
  by (simp add: past_tense_def length_str)

lemma length_find_action:
  "\<forall>a \<in> set as. length a \<le> 9 \<Longrightarrow> length (find_action as t) \<le> 11"
proof (induction as)
  case Nil
  then show ?case by (simp add: length_str)
next
  case (Cons a as)
  have "length (past_tense a) \<le> length a + 2" by (rule length_past_tense)
  moreover have "length a \<le> 9" using Cons.prems by simp
  ultimately have "length (past_tense a) \<le> 11" by linarith
  then show ?case using Cons by simp
qed

lemma actions_short: "\<forall>a \<in> set actions. length a \<le> 9"
  by (simp add: actions_def length_str)

lemma length_topic_phrase: "length (topic_phrase tp) \<le> 29"
  by (simp add: topic_phrase_def length_str)

lemma length_find_topic: "length (find_topic tps t c) \<le> 29"
  by (induction tps) (simp_all add: length_topic_phrase length_str)

lemma length_impact: "length (impact t) \<le> 71"
  by (simp add: impact_def length_str)

lemma length_summary_text: "length (summary_text title content) \<le> 137"
proof -
  let ?t = "lower (if title = [] then str ''AI News Update'' else title)"
  let ?c = "lower content"
  have 1: "length (find_company companies ?t ?c) \<le> 14"
    by (rule length_find_company [OF companies_short])
  have 2: "length (find_action actions ?t) \<le> 11"
    by (rule length_find_action [OF actions_short])
  have 3: "length (find_topic ai_topics ?t ?c) \<le> 29"
    by (rule length_find_topic)
  have 4: "length (impact ?t) \<le> 71"
    by (rule length_impact)
  have "length (summary_text title content) =
          length (find_company companies ?t ?c) + 5 + length (find_action actions ?t) + 5
          + length (find_topic ai_topics ?t ?c) + 2 + length (impact ?t)"
    by (simp add: summary_text_def Let_def length_str)
  with 1 2 3 4 show ?thesis by linarith
qed


text \<open>
  Claim C2 (the summary has at most 200 characters). Every part of the template is
  bounded: the company by 14 characters, the action by 11, the topic by 29 and the closing
  sentence by 71, so the composed summary has at most 137 characters. The length test
  of the last line therefore never truncates: the function returns the composed summary
  unchanged, and the returned string is within the 200-character bound for every title
  and content.
\<close>

theorem create_crispy_summary_bounded:
  "length (create_crispy_summary title content) \<le> 200
   \<and> length (summary_text title content) \<le> 137
   \<and> create_crispy_summary title content = summary_text title content"
proof -
  have "length (summary_text title content) \<le> 137" by (rule length_summary_text)
  then show ?thesis by (simp add: create_crispy_summary_def Let_def)
qed

end
